theory Spec2Isabelle
  imports Main "HOL-Library.AList"
begin

section \<open>Text\<close>

text \<open>
  A Python \<open>str\<close> is a sequence of Unicode code points; it is modelled as a list of
  natural numbers, one per code point, so that \<open>length\<close> and indexing count what
  Python counts. Cyrillic literals of the source are written as their code points, with a
  transliteration beside them.

  Character classes follow CPython for ASCII, Latin-1 and the Cyrillic blocks; code points
  outside these blocks are treated as caseless non-word characters, although Python knows
  letters, digits and case pairs there too. The properties proved for every text below do
  not unfold the classes; the worked inputs stay within ASCII and the Russian alphabet.
\<close>

type_synonym ustring = "nat list"

definition is_space :: "nat \<Rightarrow> bool" where
  \<comment> \<open>\<open>str.isspace\<close> of one character; also the class \<open>\s\<close> of \<open>re\<close> on \<open>str\<close> patterns\<close>
  "is_space c \<longleftrightarrow>
     (9 \<le> c \<and> c \<le> 13) \<or> (28 \<le> c \<and> c \<le> 32) \<or> c = 133 \<or> c = 160 \<or> c = 5760 \<or>
     (8192 \<le> c \<and> c \<le> 8202) \<or> c = 8232 \<or> c = 8233 \<or> c = 8239 \<or> c = 8287 \<or> c = 12288"

definition lower_cp :: "nat \<Rightarrow> nat" where
  \<comment> \<open>\<open>str.lower\<close> of one character: A-Z, U+0410-U+042F and U+0400-U+040F have a lower case\<close>
  "lower_cp c =
     (if 65 \<le> c \<and> c \<le> 90 then c + 32
      else if 1040 \<le> c \<and> c \<le> 1071 then c + 32
      else if 1024 \<le> c \<and> c \<le> 1039 then c + 80
      else c)"

definition upper_cp :: "nat \<Rightarrow> nat" where
  "upper_cp c =
     (if 97 \<le> c \<and> c \<le> 122 then c - 32
      else if 1072 \<le> c \<and> c \<le> 1103 then c - 32
      else if 1104 \<le> c \<and> c \<le> 1119 then c - 80
      else c)"

definition lower :: "ustring \<Rightarrow> ustring" where
  "lower s = map lower_cp s"

definition is_word :: "nat \<Rightarrow> bool" where
  \<comment> \<open>the class \<open>\w\<close>: alphanumeric or underscore\<close>
  "is_word c \<longleftrightarrow>
     (48 \<le> c \<and> c \<le> 57) \<or> (65 \<le> c \<and> c \<le> 90) \<or> c = 95 \<or> (97 \<le> c \<and> c \<le> 122) \<or>
     c = 170 \<or> c = 178 \<or> c = 179 \<or> c = 181 \<or> c = 185 \<or> c = 186 \<or>
     (188 \<le> c \<and> c \<le> 190) \<or> (192 \<le> c \<and> c \<le> 214) \<or> (216 \<le> c \<and> c \<le> 246) \<or>
     (248 \<le> c \<and> c \<le> 255) \<or> (1024 \<le> c \<and> c \<le> 1153) \<or> (1162 \<le> c \<and> c \<le> 1327)"

definition strip_chars :: "ustring \<Rightarrow> ustring \<Rightarrow> ustring" where
  \<comment> \<open>\<open>s.strip(chars)\<close>\<close>
  "strip_chars chars s =
     rev (dropWhile (\<lambda>c. c \<in> set chars) (rev (dropWhile (\<lambda>c. c \<in> set chars) s)))"

definition strip :: "ustring \<Rightarrow> ustring" where
  \<comment> \<open>\<open>s.strip()\<close>\<close>
  "strip s = rev (dropWhile is_space (rev (dropWhile is_space s)))"

fun split_on :: "nat \<Rightarrow> ustring \<Rightarrow> ustring list" where
  \<comment> \<open>\<open>s.split(sep)\<close> for a separator of one character\<close>
  "split_on sep [] = [[]]"
| "split_on sep (c # cs) =
     (if c = sep then [] # split_on sep cs
      else (case split_on sep cs of
              [] \<Rightarrow> [[c]]
            | w # ws \<Rightarrow> (c # w) # ws))"

section \<open>Regular expressions\<close>

text \<open>
  The fragment of Python's \<open>re\<close> that the source's patterns use. Python matches by
  backtracking: alternatives are tried left to right, \<open>*\<close> and \<open>+\<close> take as much as
  they can first, and the first way that succeeds is the match. \<open>rx_run\<close> returns every way
  an expression can match at a position, in the order the backtracking would try them, so
  its head is Python's match. Every quantifier of the source is over a single character.
\<close>

datatype item =
    Ch nat                    \<comment> \<open>a literal character\<close>
  | Any                       \<comment> \<open>\<open>.\<close>\<close>
  | Space                     \<comment> \<open>\<open>\s\<close>\<close>
  | Ranges "(nat \<times> nat) list"  \<comment> \<open>\<open>[a-bc-d...]\<close>\<close>

datatype rx =
    Eps
  | One item
  | Star item
  | Plus item
  | Seq rx rx
  | Alt rx rx
  | Grp rx                    \<comment> \<open>the capturing group, \<open>group(1)\<close>\<close>
  | Bol                       \<comment> \<open>\<open>^\<close>\<close>
  | Eol                       \<comment> \<open>\<open>$\<close>\<close>
  | WordB                     \<comment> \<open>\<open>\b\<close>\<close>

fun item_ok :: "bool \<Rightarrow> item \<Rightarrow> nat \<Rightarrow> bool" where
  \<comment> \<open>the flag is \<open>re.IGNORECASE\<close>\<close>
  "item_ok ic (Ch l) c = (if ic then lower_cp c = lower_cp l else c = l)"
| "item_ok ic Any c = (c \<noteq> 10)"
| "item_ok ic Space c = is_space c"
| "item_ok ic (Ranges rs) c =
     (if ic
      then list_ex (\<lambda>(lo, hi). (lo \<le> lower_cp c \<and> lower_cp c \<le> hi) \<or>
                               (lo \<le> upper_cp (lower_cp c) \<and> upper_cp (lower_cp c) \<le> hi)) rs
      else list_ex (\<lambda>(lo, hi). lo \<le> c \<and> c \<le> hi) rs)"

record mstate =
  prev :: "nat option"   \<comment> \<open>the character before the position, if any\<close>
  rest :: ustring        \<comment> \<open>the text from the position on\<close>
  cap :: ustring         \<comment> \<open>the text of group 1\<close>

fun greedy :: "(nat \<Rightarrow> bool) \<Rightarrow> mstate \<Rightarrow> ustring \<Rightarrow> mstate list" where
  \<comment> \<open>zero or more characters of a class, the longest run first\<close>
  "greedy p s [] = [s\<lparr>rest := []\<rparr>]"
| "greedy p s (c # cs) =
     (if p c then greedy p (s\<lparr>prev := Some c\<rparr>) cs @ [s\<lparr>rest := c # cs\<rparr>]
      else [s\<lparr>rest := c # cs\<rparr>])"

fun rx_run :: "bool \<Rightarrow> rx \<Rightarrow> mstate \<Rightarrow> mstate list" where
  "rx_run ic Eps s = [s]"
| "rx_run ic (One it) s =
     (case rest s of
        [] \<Rightarrow> []
      | c # cs \<Rightarrow> if item_ok ic it c then [s\<lparr>prev := Some c, rest := cs\<rparr>] else [])"
| "rx_run ic (Star it) s = greedy (item_ok ic it) s (rest s)"
| "rx_run ic (Plus it) s =
     (case rest s of
        [] \<Rightarrow> []
      | c # cs \<Rightarrow> if item_ok ic it c then greedy (item_ok ic it) (s\<lparr>prev := Some c\<rparr>) cs else [])"
| "rx_run ic (Seq a b) s = concat (map (rx_run ic b) (rx_run ic a s))"
| "rx_run ic (Alt a b) s = rx_run ic a s @ rx_run ic b s"
| "rx_run ic (Grp r) s =
     map (\<lambda>s'. s'\<lparr>cap := take (length (rest s) - length (rest s')) (rest s)\<rparr>) (rx_run ic r s)"
| "rx_run ic Bol s = (if prev s = None then [s] else [])"
| "rx_run ic Eol s = (if rest s = [] \<or> rest s = [10] then [s] else [])"
| "rx_run ic WordB s =
     (if (case prev s of None \<Rightarrow> False | Some p \<Rightarrow> is_word p) \<noteq>
         (case rest s of [] \<Rightarrow> False | c # _ \<Rightarrow> is_word c)
      then [s] else [])"

fun search_at :: "bool \<Rightarrow> rx \<Rightarrow> nat option \<Rightarrow> ustring \<Rightarrow> ustring option" where
  "search_at ic r p [] =
     (case rx_run ic r \<lparr>prev = p, rest = [], cap = []\<rparr> of
        [] \<Rightarrow> None
      | s # _ \<Rightarrow> Some (cap s))"
| "search_at ic r p (c # cs) =
     (case rx_run ic r \<lparr>prev = p, rest = c # cs, cap = []\<rparr> of
        [] \<Rightarrow> search_at ic r (Some c) cs
      | s # _ \<Rightarrow> Some (cap s))"

definition re_search :: "bool \<Rightarrow> rx \<Rightarrow> ustring \<Rightarrow> ustring option" where
  \<comment> \<open>\<open>re.search(pattern, text, flags)\<close>: \<open>None\<close> for no match, else the text of
      \<open>group(1)\<close> of the leftmost match (empty when the pattern has no group)\<close>
  "re_search ic r text = search_at ic r None text"

fun lit :: "ustring \<Rightarrow> rx" where
  \<comment> \<open>a run of literal characters\<close>
  "lit [] = Eps"
| "lit [c] = One (Ch c)"
| "lit (c # cs) = Seq (One (Ch c)) (lit cs)"

fun alts :: "rx list \<Rightarrow> rx" where
  \<comment> \<open>\<open>a|b|c\<close>\<close>
  "alts [] = Eps"
| "alts [r] = r"
| "alts (r # rs) = Alt r (alts rs)"

fun seqs :: "rx list \<Rightarrow> rx" where
  "seqs [] = Eps"
| "seqs [r] = r"
| "seqs (r # rs) = Seq r (seqs rs)"

section \<open>The address parser\<close>

definition ORIGIN :: ustring where
  \<comment> \<open>"Dmitrov", the fixed origin city\<close>
  "ORIGIN = [1044, 1084, 1080, 1090, 1088, 1086, 1074]"

definition origin_lower :: ustring where
  \<comment> \<open>"dmitrov", the literal compared with \<open>city.lower()\<close>\<close>
  "origin_lower = [1076, 1084, 1080, 1090, 1088, 1086, 1074]"

definition UNKNOWN_POINT :: ustring where
  \<comment> \<open>"Neizvestnyi punkt" (unknown point)\<close>
  "UNKNOWN_POINT = [1053, 1077, 1080, 1079, 1074, 1077, 1089, 1090, 1085, 1099, 1081, 32,
                    1087, 1091, 1085, 1082, 1090]"

definition Odintsovo :: ustring where
  "Odintsovo = [1054, 1076, 1080, 1085, 1094, 1086, 1074, 1086]"

definition Sergiev_Posad :: ustring where
  "Sergiev_Posad = [1057, 1077, 1088, 1075, 1080, 1077, 1074, 32, 1055, 1086, 1089, 1072, 1076]"

definition Kirzhach :: ustring where
  "Kirzhach = [1050, 1080, 1088, 1078, 1072, 1095]"

definition CITY_CORRECTIONS :: "(ustring \<times> ustring) list" where
  \<comment> \<open>the class attribute, in the dictionary's insertion order; the keys are
      "o", "ievo", "ievo-posadsk", "s. posad", "s.posad", "serg posad", "serg. posad",
      "sergievo", "sergiev", "kirzhachsk"\<close>
  "CITY_CORRECTIONS =
    [([1086], Odintsovo),
     ([1080, 1077, 1074, 1086], Sergiev_Posad),
     ([1080, 1077, 1074, 1086, 45, 1087, 1086, 1089, 1072, 1076, 1089, 1082], Sergiev_Posad),
     ([1089, 46, 32, 1087, 1086, 1089, 1072, 1076], Sergiev_Posad),
     ([1089, 46, 1087, 1086, 1089, 1072, 1076], Sergiev_Posad),
     ([1089, 1077, 1088, 1075, 32, 1087, 1086, 1089, 1072, 1076], Sergiev_Posad),
     ([1089, 1077, 1088, 1075, 46, 32, 1087, 1086, 1089, 1072, 1076], Sergiev_Posad),
     ([1089, 1077, 1088, 1075, 1080, 1077, 1074, 1086], Sergiev_Posad),
     ([1089, 1077, 1088, 1075, 1080, 1077, 1074], Sergiev_Posad),
     ([1082, 1080, 1088, 1078, 1072, 1095, 1089, 1082], Kirzhach)]"

definition abbr_rx :: "ustring \<Rightarrow> rx" where
  \<comment> \<open>the pattern \<open>rf'\b{abbr}\b'\<close>: the key is pasted into the pattern unescaped, so its
      period is the wildcard; the keys hold no other special character\<close>
  "abbr_rx abbr = Seq WordB (Seq (seqs (map (\<lambda>c. if c = 46 then One Any else One (Ch c)) abbr)) WordB)"

definition cyr_name :: item where
  \<comment> \<open>the class \<open>[A-YAa-ya\-]\<close> over the Cyrillic alphabet U+0410-U+044F, and the hyphen\<close>
  "cyr_name = Ranges [(1040, 1071), (1072, 1103), (45, 45)]"

definition pattern0 :: rx where
  \<comment> \<open>\<open>(?:go\s+|g\.\s*|gorod\s+|gorodskoi okrug\s+)([A-YAa-ya\-]+)\<close>\<close>
  "pattern0 =
     Seq (alts [Seq (lit [1075, 1086]) (Plus Space),
                Seq (lit [1075, 46]) (Star Space),
                Seq (lit [1075, 1086, 1088, 1086, 1076]) (Plus Space),
                Seq (lit [1075, 1086, 1088, 1086, 1076, 1089, 1082, 1086, 1081, 32,
                          1086, 1082, 1088, 1091, 1075]) (Plus Space)])
         (Grp (Plus cyr_name))"

definition pattern1 :: rx where
  \<comment> \<open>\<open>(?:^|\s)(Volokolamsk|Odintsovo|Sergiev\s*Posad|Kirzhach|Alenino)(?:\s|$|,)\<close>\<close>
  "pattern1 =
     seqs [Alt Bol (One Space),
           Grp (alts [lit [1042, 1086, 1083, 1086, 1082, 1086, 1083, 1072, 1084, 1089, 1082],
                      lit [1054, 1076, 1080, 1085, 1094, 1086, 1074, 1086],
                      seqs [lit [1057, 1077, 1088, 1075, 1080, 1077, 1074], Star Space,
                            lit [1055, 1086, 1089, 1072, 1076]],
                      lit [1050, 1080, 1088, 1078, 1072, 1095],
                      lit [1040, 1083, 1077, 1085, 1080, 1085, 1086]]),
           alts [One Space, Eol, One (Ch 44)]]"

definition pattern2 :: rx where
  \<comment> \<open>\<open>([A-YAa-ya\-]+)(?:\s+(?:munitsipalnyi okrug|raion|go))\<close>\<close>
  "pattern2 =
     seqs [Grp (Plus cyr_name), Plus Space,
           alts [lit [1084, 1091, 1085, 1080, 1094, 1080, 1087, 1072, 1083, 1100, 1085, 1099,
                      1081, 32, 1086, 1082, 1088, 1091, 1075],
                 lit [1088, 1072, 1081, 1086, 1085],
                 lit [1075, 1086]]]"

definition pattern3 :: rx where
  \<comment> \<open>\<open>(?:s\.|d\.|p\.|selo|derevnya|poselok)\s*([A-YAa-ya\-]+)\<close>\<close>
  "pattern3 =
     seqs [alts [lit [1089, 46], lit [1076, 46], lit [1087, 46],
                 lit [1089, 1077, 1083, 1086],
                 lit [1076, 1077, 1088, 1077, 1074, 1085, 1103],
                 lit [1087, 1086, 1089, 1077, 1083, 1086, 1082]],
           Star Space, Grp (Plus cyr_name)]"

definition patterns :: "rx list" where
  "patterns = [pattern0, pattern1, pattern2, pattern3]"

text \<open>
  The dictionary \<open>locations\<close> of the source maps a city to its priority. Python keeps a
  dictionary in insertion order, and assigning to a key it has keeps the key's place: this
  is \<open>AList.update\<close> on an association list, read with \<open>map_of\<close>.
\<close>

type_synonym locations = "(ustring \<times> int) list"

definition apply_correction :: "ustring \<Rightarrow> ustring \<times> ustring \<Rightarrow> locations \<Rightarrow> locations" where
  \<comment> \<open>one round of the loop over \<open>CITY_CORRECTIONS.items()\<close>\<close>
  "apply_correction address kv locs =
     (if re_search False (abbr_rx (fst kv)) (lower address) \<noteq> None
      then AList.update (snd kv) 3 locs else locs)"

definition apply_corrections :: "ustring \<Rightarrow> locations \<Rightarrow> locations" where
  "apply_corrections address locs = fold (apply_correction address) CITY_CORRECTIONS locs"

definition apply_pattern :: "ustring \<Rightarrow> nat \<times> rx \<Rightarrow> locations \<Rightarrow> locations" where
  \<comment> \<open>one round of the loop over \<open>enumerate(patterns)\<close>\<close>
  "apply_pattern address ip locs =
     (case re_search True (snd ip) address of
        None \<Rightarrow> locs
      | Some g \<Rightarrow>
          let city = strip g in
          if lower city \<noteq> origin_lower then
            let priority = 3 - int (fst ip) in
            if map_of locs city = None \<or> the (map_of locs city) < priority
            then AList.update city priority locs
            else locs
          else locs)"

definition apply_patterns :: "ustring \<Rightarrow> locations \<Rightarrow> locations" where
  "apply_patterns address locs = fold (apply_pattern address) (enumerate 0 patterns) locs"

definition parse_line :: "ustring \<Rightarrow> locations \<Rightarrow> locations" where
  \<comment> \<open>the body of the loop over the lines of the cell; the region that the source
      extracts last is assigned to a local that nothing reads\<close>
  "parse_line address0 locs =
     (let address = strip address0 in
      if address = [] then locs
      else apply_patterns address (apply_corrections address locs))"

definition collect_locations :: "ustring \<Rightarrow> locations" where
  "collect_locations address_text =
     fold parse_line (split_on 10 (strip_chars [34] address_text)) []"

definition parse_addresses :: "ustring \<Rightarrow> ustring list" where
  \<comment> \<open>\<open>sorted(..., key=priority, reverse=True)\<close> is stable: cities of equal priority keep
      their insertion order, as does the stable \<open>sort_key\<close> on the negated priority\<close>
  "parse_addresses address_text =
     map fst (sort_key (\<lambda>(loc, priority). - priority) (collect_locations address_text))"

section \<open>Cells, messages and the processor's state\<close>

text \<open>
  A cell of the loaded table is a scalar. The processor looks at four things of a cell
  only: whether \<open>pd.isna\<close> holds of it, whether it is a \<open>datetime\<close>, its \<open>str()\<close> and
  its truth value; the model keeps exactly these.
\<close>

record datetime =
  year :: nat
  month :: nat
  day :: nat
  hour :: nat
  minute :: nat
  second :: nat

datatype cell =
    Blank                     \<comment> \<open>\<open>None\<close>, \<open>NaN\<close>, \<open>NaT\<close>: \<open>pd.isna\<close> holds\<close>
  | Text ustring              \<comment> \<open>a \<open>str\<close>\<close>
  | Stamp datetime ustring    \<comment> \<open>a \<open>datetime\<close>, and its \<open>str()\<close>\<close>
  | Other ustring bool        \<comment> \<open>any other scalar: its \<open>str()\<close> and its truth value\<close>

fun isna :: "cell \<Rightarrow> bool" where
  "isna Blank = True"
| "isna _ = False"

fun cell_str :: "cell \<Rightarrow> ustring" where
  \<comment> \<open>\<open>str(x)\<close>; of a blank cell it is never taken\<close>
  "cell_str Blank = []"
| "cell_str (Text s) = s"
| "cell_str (Stamp d s) = s"
| "cell_str (Other s b) = s"

fun truthy :: "cell \<Rightarrow> bool" where
  \<comment> \<open>\<open>bool(x)\<close>\<close>
  "truthy Blank = True"
| "truthy (Text s) = (s \<noteq> [])"
| "truthy (Stamp d s) = True"
| "truthy (Other s b) = b"

text \<open>
  An exception is a value. \<open>InvalidOperation\<close> is what the \<open>Decimal\<close> constructor raises on
  a text that is no number; \<open>Exn\<close> stands for any other exception, with its \<open>str()\<close>.
\<close>

datatype error = InvalidOperation | Exn ustring

datatype 'a outcome = Returns 'a | Raises error

text \<open>
  The warnings, errors and result messages of the source are formatted strings. Each
  constructor below stands for one format string of the source; its arguments are the
  values the string interpolates, the row number being \<open>row_index + 1\<close>.
\<close>

datatype message =
    EmptyDate nat                 \<comment> \<open>row n: empty date\<close>
  | UnknownDate nat ustring       \<comment> \<open>row n: the date 'text' was not recognised\<close>
  | NoDriver nat                  \<comment> \<open>row n: no driver given\<close>
  | DriverNotExtracted nat        \<comment> \<open>row n: the driver's name could not be extracted\<close>
  | NoCar nat                     \<comment> \<open>row n: no vehicle given\<close>
  | CarNotExtracted nat           \<comment> \<open>row n: the vehicle's number could not be extracted\<close>
  | NoAddress nat                 \<comment> \<open>row n: no address given\<close>
  | NoRoute nat                   \<comment> \<open>row n: no route could be extracted\<close>
  | NoAmount nat                  \<comment> \<open>row n: no amount given\<close>
  | BadAmount nat error           \<comment> \<open>row n: the amount could not be converted: e\<close>
  | RowError nat error            \<comment> \<open>error in row n: e\<close>
  | LoadFailed                    \<comment> \<open>the file could not be loaded in any supported format\<close>
  | MissingColumns "ustring list" \<comment> \<open>required columns are missing: a, b, ...\<close>
  | Uncaught error                \<comment> \<open>\<open>str(e)\<close> of an exception caught by \<open>process_file\<close>\<close>
  | CouldNotLoad                  \<comment> \<open>result message: the file could not be loaded\<close>
  | BadStructure                  \<comment> \<open>result message: wrong structure of the file\<close>
  | Processed nat                 \<comment> \<open>result message: n records processed\<close>
  | Critical error                \<comment> \<open>result message: critical error: e\<close>

record processor =
  errors :: "message list"
  warnings :: "message list"

definition warn :: "message \<Rightarrow> processor \<Rightarrow> processor" where
  \<comment> \<open>\<open>self.warnings.append(m)\<close>\<close>
  "warn m self = self\<lparr>warnings := warnings self @ [m]\<rparr>"

definition extract_route :: "cell \<Rightarrow> nat \<Rightarrow> processor \<Rightarrow> ustring list \<times> processor" where
  "extract_route address_text row_index self =
     (if isna address_text \<or> \<not> truthy address_text then
        ([ORIGIN, UNKNOWN_POINT], warn (NoAddress (row_index + 1)) self)
      else
        let locations = parse_addresses (cell_str address_text) in
        if locations = [] then
          ([ORIGIN, UNKNOWN_POINT], warn (NoRoute (row_index + 1)) self)
        else (ORIGIN # take 3 locations, self))"

section \<open>Decimal amounts\<close>

text \<open>
  A \<open>Decimal\<close> is a sign, a coefficient and an exponent, or an infinity, or a NaN. The
  constructor \<open>Decimal(text)\<close> is exact: it strips surrounding whitespace, drops every
  underscore, and reads an optional sign followed by a number (digits with an optional
  period and an optional exponent), an infinity or a NaN, case-insensitively; on any other
  text it raises \<open>InvalidOperation\<close>. The model reads the ASCII digits and puts no
  bound on the exponent: Python also reads the decimal digits of other scripts, and
  rejects an exponent beyond the limits of its arithmetic context (about 10^18), so on
  such texts the model and Python differ.
\<close>

datatype decimal =
    Finite bool nat int   \<comment> \<open>negative?, coefficient, exponent: the value is c * 10^e, negated\<close>
  | Infinity bool         \<comment> \<open>negative?\<close>
  | NaN bool bool nat     \<comment> \<open>negative?, signalling?, diagnostic digits\<close>

definition is_digit :: "nat \<Rightarrow> bool" where
  "is_digit c \<longleftrightarrow> 48 \<le> c \<and> c \<le> 57"

definition digits_value :: "ustring \<Rightarrow> nat" where
  \<comment> \<open>\<open>int(text)\<close> of a run of digits\<close>
  "digits_value ds = foldl (\<lambda>a c. 10 * a + (c - 48)) 0 ds"

definition take_sign :: "ustring \<Rightarrow> bool \<times> ustring" where
  \<comment> \<open>\<open>[-+]?\<close>\<close>
  "take_sign s =
     (case s of
        [] \<Rightarrow> (False, [])
      | c # cs \<Rightarrow> if c = 45 then (True, cs) else if c = 43 then (False, cs) else (False, s))"

definition parse_exponent :: "ustring \<Rightarrow> int option" where
  \<comment> \<open>\<open>(E[-+]?\d+)?\<close> up to the end of the text\<close>
  "parse_exponent s =
     (case s of
        [] \<Rightarrow> Some 0
      | c # cs \<Rightarrow>
          if c = 69 \<or> c = 101 then
            (let (neg, ds) = take_sign cs in
             if ds \<noteq> [] \<and> list_all is_digit ds
             then Some (if neg then - int (digits_value ds) else int (digits_value ds))
             else None)
          else None)"

definition parse_number :: "bool \<Rightarrow> ustring \<Rightarrow> decimal option" where
  \<comment> \<open>\<open>(?=\d|\.\d)\d*(\.\d*)?(E[-+]?\d+)?\<close>: the coefficient is the integer and the
      fractional digits together, the exponent is lowered by the number of fractional digits\<close>
  "parse_number sign body =
     (let intpart = takeWhile is_digit body;
          r1 = dropWhile is_digit body;
          has_frac = (case r1 of [] \<Rightarrow> False | c # _ \<Rightarrow> c = 46);
          fracpart = (if has_frac then takeWhile is_digit (tl r1) else []);
          r2 = (if has_frac then dropWhile is_digit (tl r1) else r1)
      in if intpart = [] \<and> fracpart = [] then None
         else (case parse_exponent r2 of
                 None \<Rightarrow> None
               | Some exp \<Rightarrow>
                   Some (Finite sign (digits_value (intpart @ fracpart))
                                (exp - int (length fracpart)))))"

definition parse_special :: "bool \<Rightarrow> ustring \<Rightarrow> decimal option" where
  \<comment> \<open>\<open>Inf(inity)?\<close> or \<open>s?NaN\d*\<close>, case-insensitively\<close>
  "parse_special sign body =
     (let b = lower body in
      if b = [105, 110, 102] \<or> b = [105, 110, 102, 105, 110, 105, 116, 121]
      then Some (Infinity sign)
      else
        let signal = (case b of [] \<Rightarrow> False | c # _ \<Rightarrow> c = 115);
            r = (if signal then tl b else b)
        in if take 3 r = [110, 97, 110] \<and> list_all is_digit (drop 3 r)
           then Some (NaN sign signal (digits_value (drop 3 r)))
           else None)"

definition Decimal_of_str :: "ustring \<Rightarrow> error + decimal" where
  \<comment> \<open>\<open>Decimal(text)\<close>\<close>
  "Decimal_of_str v =
     (let s = filter (\<lambda>c. c \<noteq> 95) (strip v);
          (sign, body) = take_sign s
      in case (if (case body of [] \<Rightarrow> False | c # _ \<Rightarrow> is_digit c \<or> c = 46)
               then parse_number sign body
               else parse_special sign body) of
           None \<Rightarrow> Inl InvalidOperation
         | Some d \<Rightarrow> Inr d)"

definition Decimal_0_00 :: decimal where
  \<comment> \<open>\<open>Decimal("0.00")\<close>\<close>
  "Decimal_0_00 = Finite False 0 (- 2)"

fun non_negative :: "decimal \<Rightarrow> bool" where
  \<comment> \<open>\<open>d >= 0\<close>; a comparison with a NaN does not hold\<close>
  "non_negative (Finite neg c e) = (\<not> neg \<or> c = 0)"
| "non_negative (Infinity neg) = (\<not> neg)"
| "non_negative (NaN neg sig d) = False"

definition amount_text :: "ustring \<Rightarrow> ustring" where
  \<comment> \<open>\<open>text.replace(',', '.').replace(' ', '')\<close>\<close>
  "amount_text s = filter (\<lambda>c. c \<noteq> 32) (map (\<lambda>c. if c = 44 then 46 else c) s)"

definition parse_amount :: "cell \<Rightarrow> nat \<Rightarrow> processor \<Rightarrow> decimal \<times> processor" where
  "parse_amount amount_str row_index self =
     (if isna amount_str then
        (Decimal_0_00, warn (NoAmount (row_index + 1)) self)
      else
        (case Decimal_of_str (amount_text (cell_str amount_str)) of
           Inr d \<Rightarrow> (d, self)
         | Inl e \<Rightarrow> (Decimal_0_00, warn (BadAmount (row_index + 1) e) self)))"

section \<open>The service record and its description\<close>

text \<open>
  \<open>TransportService\<close> is a dataclass; \<open>description\<close> is a read-only property computed from
  the date, the driver, the vehicle and the route. The table model of the user interface
  stores an edited description in an attribute \<open>_description\<close> of the instance, which the
  dataclass does not declare; the field \<open>stored_description\<close> is that attribute, absent
  until it is assigned.
\<close>

record transport_service =
  date :: datetime
  driver_name :: ustring
  car_number :: ustring
  route :: "ustring list"
  quantity :: int
  unit_name :: ustring                     \<comment> \<open>the field \<open>unit\<close>\<close>
  price :: decimal
  amount :: decimal
  stored_description :: "ustring option"   \<comment> \<open>the attribute \<open>_description\<close>\<close>

definition pad2 :: "nat \<Rightarrow> ustring" where
  \<comment> \<open>two decimal digits, as \<open>%d\<close> and \<open>%m\<close> print a day and a month\<close>
  "pad2 n = [48 + n div 10 mod 10, 48 + n mod 10]"

definition pad4 :: "nat \<Rightarrow> ustring" where
  \<comment> \<open>four decimal digits, as \<open>%Y\<close> prints a year from 1000 on; below 1000 the C
      library decides whether the zeros are printed\<close>
  "pad4 n = [48 + n div 1000 mod 10, 48 + n div 100 mod 10, 48 + n div 10 mod 10, 48 + n mod 10]"

definition strftime_dmY :: "datetime \<Rightarrow> ustring" where
  \<comment> \<open>\<open>d.strftime("%d.%m.%Y")\<close>\<close>
  "strftime_dmY d = pad2 (day d) @ [46] @ pad2 (month d) @ [46] @ pad4 (year d)"

fun join :: "ustring \<Rightarrow> ustring list \<Rightarrow> ustring" where
  \<comment> \<open>\<open>sep.join(parts)\<close>\<close>
  "join sep [] = []"
| "join sep [x] = x"
| "join sep (x # xs) = x @ sep @ join sep xs"

definition description :: "transport_service \<Rightarrow> ustring" where
  \<comment> \<open>"Transportnye uslugi {date} vodit. {driver}, a/m Gazel {car}, marshrut {route}",
      the route joined with " - "\<close>
  "description self =
     (let date_str = strftime_dmY (date self);
          route_str = join [32, 45, 32] (route self)
      in [1058, 1088, 1072, 1085, 1089, 1087, 1086, 1088, 1090, 1085, 1099, 1077, 32,
          1091, 1089, 1083, 1091, 1075, 1080, 32] @ date_str @
         [32, 1074, 1086, 1076, 1080, 1090, 46, 32] @ driver_name self @
         [44, 32, 1072, 47, 1084, 32, 1043, 1072, 1079, 1077, 1083, 1100, 32] @ car_number self @
         [44, 32, 1084, 1072, 1088, 1096, 1088, 1091, 1090, 32] @ route_str)"

fun contains :: "ustring \<Rightarrow> ustring \<Rightarrow> bool" where
  \<comment> \<open>\<open>sub in s\<close>\<close>
  "contains sub [] = (sub = [])"
| "contains sub (c # cs) = (take (length sub) (c # cs) = sub \<or> contains sub cs)"

function split_str :: "ustring \<Rightarrow> ustring \<Rightarrow> ustring \<Rightarrow> ustring list" where
  \<comment> \<open>\<open>s.split(sep)\<close> for a separator that is not empty, the second argument being the
      part read so far, reversed\<close>
  "split_str sep acc [] = [rev acc]"
| "split_str sep acc (c # cs) =
     (if sep \<noteq> [] \<and> take (length sep) (c # cs) = sep
      then rev acc # split_str sep [] (drop (length sep) (c # cs))
      else split_str sep (c # acc) cs)"
  by pat_completeness auto
termination
  by (relation "measure (\<lambda>(sep, acc, s). length s)") auto

definition marshrut :: ustring where
  \<comment> \<open>the word "marshrut" (route)\<close>
  "marshrut = [1084, 1072, 1088, 1096, 1088, 1091, 1090]"

definition set_description :: "ustring \<Rightarrow> transport_service \<Rightarrow> transport_service" where
  \<comment> \<open>the branch \<open>col == 1\<close> of \<open>setData\<close> of the table model, on \<open>str(value)\<close>\<close>
  "set_description v service =
     (let service1 = service\<lparr>stored_description := Some v\<rparr> in
      if contains marshrut v then
        (case split_str marshrut [] v of
           p0 # p1 # ps \<Rightarrow>
             let route_str = strip p1 in
             if route_str \<noteq> [] then service1\<lparr>route := map strip (split_on 45 route_str)\<rparr>
             else service1
         | _ \<Rightarrow> service1)
      else service1)"

section \<open>Rows\<close>

text \<open>
  What the processor takes from its environment: the clock, \<open>datetime.strptime\<close> (\<open>None\<close>
  when it raises \<open>ValueError\<close>) and the two readers of pandas (\<open>None\<close> when they raise).
\<close>

datatype date_format = DMY_dots | YMD_dashes | DMY_slashes   \<comment> \<open>\<open>%d.%m.%Y\<close>, \<open>%Y-%m-%d\<close>, \<open>%d/%m/%Y\<close>\<close>

datatype encoding = UTF8 | CP1251 | Latin1 | ISO8859_1

datatype label = Name ustring | NotStr nat   \<comment> \<open>a column label: a \<open>str\<close>, or another value\<close>

record dataframe =
  columns :: "label list"
  rows :: "cell list list"

record env =
  now :: datetime
  strptime :: "ustring \<Rightarrow> date_format \<Rightarrow> datetime option"
  read_excel :: "ustring \<Rightarrow> dataframe option"
  read_csv :: "ustring \<Rightarrow> encoding \<Rightarrow> dataframe option"

definition NOT_SPECIFIED :: ustring where
  \<comment> \<open>"NE UKAZAN" (not specified)\<close>
  "NOT_SPECIFIED = [1053, 1045, 32, 1059, 1050, 1040, 1047, 1040, 1053]"

definition parse_date :: "env \<Rightarrow> cell \<Rightarrow> nat \<Rightarrow> processor \<Rightarrow> datetime \<times> processor" where
  \<comment> \<open>the formats are tried in the order of the source; \<open>strptime\<close> raises \<open>ValueError\<close>
      only, so the last handler of the source is not reached\<close>
  "parse_date e date_str row_index self =
     (case date_str of
        Blank \<Rightarrow> (now e, warn (EmptyDate (row_index + 1)) self)
      | Stamp d s \<Rightarrow> (d, self)
      | _ \<Rightarrow>
          (case List.map_filter (strptime e (cell_str date_str)) [DMY_dots, YMD_dashes, DMY_slashes] of
             d # _ \<Rightarrow> (d, self)
           | [] \<Rightarrow> (now e, warn (UnknownDate (row_index + 1) (cell_str date_str)) self)))"

definition extract_driver_name :: "cell \<Rightarrow> nat \<Rightarrow> processor \<Rightarrow> ustring \<times> processor" where
  "extract_driver_name driver_info row_index self =
     (if isna driver_info then (NOT_SPECIFIED, warn (NoDriver (row_index + 1)) self)
      else
        let driver_str = cell_str driver_info in
        if 44 \<in> set driver_str then
          (case split_on 44 driver_str of
             [] \<Rightarrow> ([], self)
           | p # ps \<Rightarrow> (strip p, self))
        else (driver_str, warn (DriverNotExtracted (row_index + 1)) self))"

definition car_pattern :: rx where
  \<comment> \<open>\<open>Gazel\s+([A-YA0-9]+)\<close>, the capital Cyrillic letters U+0410-U+042F and the digits\<close>
  "car_pattern =
     seqs [lit [1043, 1072, 1079, 1077, 1083, 1100], Plus Space,
           Grp (Plus (Ranges [(1040, 1071), (48, 57)]))]"

definition extract_car_number :: "cell \<Rightarrow> nat \<Rightarrow> processor \<Rightarrow> ustring \<times> processor" where
  "extract_car_number car_info row_index self =
     (if isna car_info then (NOT_SPECIFIED, warn (NoCar (row_index + 1)) self)
      else
        (case re_search False car_pattern (cell_str car_info) of
           Some g \<Rightarrow> (g, self)
         | None \<Rightarrow> (NOT_SPECIFIED, warn (CarNotExtracted (row_index + 1)) self)))"

definition row_get :: "label list \<Rightarrow> cell list \<Rightarrow> ustring \<Rightarrow> cell" where
  \<comment> \<open>\<open>row.get(name)\<close>: the cell under the column of that name, \<open>None\<close> when there is none\<close>
  "row_get cols row name = (case map_of (zip cols row) (Name name) of None \<Rightarrow> Blank | Some c \<Rightarrow> c)"

definition col_date :: ustring where
  \<comment> \<open>"Data"\<close>
  "col_date = [1044, 1072, 1090, 1072]"

definition col_driver :: ustring where
  \<comment> \<open>"Voditel"\<close>
  "col_driver = [1042, 1086, 1076, 1080, 1090, 1077, 1083, 1100]"

definition col_car :: ustring where
  \<comment> \<open>"Avto"\<close>
  "col_car = [1040, 1074, 1090, 1086]"

definition col_address :: ustring where
  \<comment> \<open>"Adres vygruzki"\<close>
  "col_address = [1040, 1076, 1088, 1077, 1089, 32, 1074, 1099, 1075, 1088, 1091, 1079, 1082, 1080]"

definition col_amount :: ustring where
  \<comment> \<open>"Summa za reisy"\<close>
  "col_amount = [1057, 1091, 1084, 1084, 1072, 32, 1079, 1072, 32, 1088, 1077, 1081, 1089, 1099]"

definition process_row ::
  "env \<Rightarrow> label list \<Rightarrow> cell list \<Rightarrow> nat \<Rightarrow> processor \<Rightarrow> transport_service option outcome \<times> processor"
where
  \<comment> \<open>a \<open>datetime\<close> is never falsy, so the early \<open>return None\<close> of the source is not taken;
      \<open>quantity\<close> and \<open>unit\<close> take the defaults of the dataclass\<close>
  "process_row e cols row index self =
     (let (d, s1) = parse_date e (row_get cols row col_date) index self;
          (driver, s2) = extract_driver_name (row_get cols row col_driver) index s1;
          (car, s3) = extract_car_number (row_get cols row col_car) index s2;
          (rt, s4) = extract_route (row_get cols row col_address) index s3;
          (amt, s5) = parse_amount (row_get cols row col_amount) index s4
      in (Returns (Some \<lparr>date = d, driver_name = driver, car_number = car, route = rt,
                           quantity = 1, unit_name = [1096, 1090, 46], price = amt, amount = amt,
                           stored_description = None\<rparr>), s5))"

fun process_rows ::
  "(cell list \<Rightarrow> nat \<Rightarrow> processor \<Rightarrow> transport_service option outcome \<times> processor) \<Rightarrow>
   (nat \<times> cell list) list \<Rightarrow> transport_service list \<Rightarrow> processor \<Rightarrow>
   transport_service list \<times> processor"
where
  \<comment> \<open>the loop of \<open>_process_data\<close> over \<open>df.iterrows()\<close>, with its \<open>try\<close> around each row\<close>
  "process_rows f [] services self = (services, self)"
| "process_rows f ((index, row) # others) services self =
     (case f row index self of
        (Returns None, s) \<Rightarrow> process_rows f others services s
      | (Returns (Some service), s) \<Rightarrow> process_rows f others (services @ [service]) s
      | (Raises ex, s) \<Rightarrow> process_rows f others services (warn (RowError (index + 1) ex) s))"

definition process_data :: "env \<Rightarrow> dataframe \<Rightarrow> processor \<Rightarrow> transport_service list \<times> processor" where
  "process_data e df self =
     process_rows (process_row e (columns df)) (enumerate 0 (rows df)) [] self"

section \<open>Files\<close>

definition load_data :: "env \<Rightarrow> ustring \<Rightarrow> processor \<Rightarrow> dataframe option \<times> processor" where
  "load_data e file_path self =
     (case read_excel e file_path of
        Some df \<Rightarrow> (Some df, self)
      | None \<Rightarrow>
          (case List.map_filter (read_csv e file_path) [UTF8, CP1251, Latin1, ISO8859_1] of
             df # _ \<Rightarrow> (Some df, self)
           | [] \<Rightarrow> (None, self\<lparr>errors := errors self @ [LoadFailed]\<rparr>)))"

definition required_columns :: "ustring list" where
  "required_columns = [col_date, col_driver, col_car, col_address, col_amount]"

definition check_column :: "ustring \<Rightarrow> label list \<times> ustring list \<Rightarrow> label list \<times> ustring list" where
  \<comment> \<open>one round of the loop of \<open>_validate_structure\<close>, on the labels and the missing columns:
      a required column that is absent takes the first label that contains its name, case
      ignored, which \<open>df.rename\<close> then renames\<close>
  "check_column col cm =
     (let (cols, missing) = cm in
      if Name col \<in> set cols then (cols, missing)
      else
        (case find (\<lambda>a. case a of Name n \<Rightarrow> contains (lower col) (lower n) | NotStr k \<Rightarrow> False) cols of
           Some actual_col \<Rightarrow> (map (\<lambda>l. if l = actual_col then Name col else l) cols, missing)
         | None \<Rightarrow> (cols, missing @ [col])))"

definition validate_structure :: "dataframe \<Rightarrow> processor \<Rightarrow> (bool \<times> dataframe) \<times> processor" where
  \<comment> \<open>the frame is renamed in place, so the renamed frame is returned with the verdict\<close>
  "validate_structure df self =
     (let (cols, missing_columns) = fold check_column required_columns (columns df, []);
          df' = df\<lparr>columns := cols\<rparr>
      in if missing_columns \<noteq> []
         then ((False, df'), self\<lparr>errors := errors self @ [MissingColumns missing_columns]\<rparr>)
         else ((True, df'), self))"

record processing_result =
  success :: bool
  message :: message
  data :: "transport_service list option"
  result_errors :: "message list"     \<comment> \<open>the field \<open>errors\<close>\<close>
  result_warnings :: "message list"   \<comment> \<open>the field \<open>warnings\<close>\<close>

definition on_exception :: "error \<Rightarrow> processor \<Rightarrow> processing_result \<times> processor" where
  \<comment> \<open>the handler \<open>except Exception as e\<close> of \<open>process_file\<close>\<close>
  "on_exception ex self =
     (let s = self\<lparr>errors := errors self @ [Uncaught ex]\<rparr>
      in (\<lparr>success = False, message = Critical ex, data = None,
           result_errors = errors s, result_warnings = []\<rparr>, s))"

definition process_file_with ::
  "(ustring \<Rightarrow> processor \<Rightarrow> dataframe option outcome \<times> processor) \<Rightarrow>
   (dataframe \<Rightarrow> processor \<Rightarrow> (bool \<times> dataframe) outcome \<times> processor) \<Rightarrow>
   (dataframe \<Rightarrow> processor \<Rightarrow> transport_service list outcome \<times> processor) \<Rightarrow>
   ustring \<Rightarrow> processor \<Rightarrow> processing_result \<times> processor"
where
  \<comment> \<open>the body of \<open>process_file\<close> over its three steps, each of which returns or raises\<close>
  "process_file_with load validate process file_path self0 =
     (let self = self0\<lparr>errors := [], warnings := []\<rparr> in
      case load file_path self of
        (Raises ex, s1) \<Rightarrow> on_exception ex s1
      | (Returns None, s1) \<Rightarrow>
          (\<lparr>success = False, message = CouldNotLoad, data = None,
            result_errors = errors s1, result_warnings = []\<rparr>, s1)
      | (Returns (Some df), s1) \<Rightarrow>
          (case validate df s1 of
             (Raises ex, s2) \<Rightarrow> on_exception ex s2
           | (Returns (ok, df'), s2) \<Rightarrow>
               if \<not> ok then
                 (\<lparr>success = False, message = BadStructure, data = None,
                   result_errors = errors s2, result_warnings = []\<rparr>, s2)
               else
                 (case process df' s2 of
                    (Raises ex, s3) \<Rightarrow> on_exception ex s3
                  | (Returns services, s3) \<Rightarrow>
                      (\<lparr>success = True, message = Processed (length services),
                        data = Some services, result_errors = [],
                        result_warnings = warnings s3\<rparr>, s3))))"

definition returning :: "('a \<Rightarrow> processor \<Rightarrow> 'b \<times> processor) \<Rightarrow> 'a \<Rightarrow> processor \<Rightarrow> 'b outcome \<times> processor" where
  \<comment> \<open>a step that does not raise\<close>
  "returning f x self = (case f x self of (y, s) \<Rightarrow> (Returns y, s))"

definition process_file :: "env \<Rightarrow> ustring \<Rightarrow> processor \<Rightarrow> processing_result \<times> processor" where
  "process_file e =
     process_file_with (returning (load_data e)) (returning validate_structure)
                       (returning (process_data e))"

section \<open>Example inputs\<close>

definition fresh :: processor where
  \<comment> \<open>the state that \<open>__init__\<close> leaves\<close>
  "fresh = \<lparr>errors = [], warnings = []\<rparr>"

definition line_klin :: ustring where
  \<comment> \<open>"g. Klin, Klinskii raion"\<close>
  "line_klin = [1075, 46, 32, 1050, 1083, 1080, 1085, 44, 32, 1050, 1083, 1080, 1085, 1089,
                1082, 1080, 1081, 32, 1088, 1072, 1081, 1086, 1085]"

definition Klin :: ustring where
  "Klin = [1050, 1083, 1080, 1085]"

definition Klinskii :: ustring where
  "Klinskii = [1050, 1083, 1080, 1085, 1089, 1082, 1080, 1081]"

definition sergiev :: ustring where
  \<comment> \<open>"sergiev", a key of the dictionary\<close>
  "sergiev = [1089, 1077, 1088, 1075, 1080, 1077, 1074]"

definition block_tie :: ustring where
  \<comment> \<open>two lines: "g. Klin" and "sergiev raion"\<close>
  "block_tie = [1075, 46, 32, 1050, 1083, 1080, 1085, 10,
                1089, 1077, 1088, 1075, 1080, 1077, 1074, 32, 1088, 1072, 1081, 1086, 1085]"

definition block_posad :: ustring where
  \<comment> \<open>two lines: "sergiev" and "Klinskii raion"\<close>
  "block_posad = [1089, 1077, 1088, 1075, 1080, 1077, 1074, 10,
                  1050, 1083, 1080, 1085, 1089, 1082, 1080, 1081, 32, 1088, 1072, 1081, 1086, 1085]"

definition example_columns :: "label list" where
  "example_columns = [Name col_date, Name col_driver, Name col_car, Name col_address, Name col_amount]"

definition example_row :: "cell list" where
  \<comment> \<open>12 January 2024; "Ivanov I.I., tel. 123"; "Gazel A123VS"; "g. Klin, Klinskii raion";
      "1 234,50"\<close>
  "example_row =
     [Stamp \<lparr>year = 2024, month = 1, day = 12, hour = 0, minute = 0, second = 0\<rparr> [],
      Text [1048, 1074, 1072, 1085, 1086, 1074, 32, 1048, 46, 1048, 46, 44, 32, 1090, 1077, 1083,
            46, 32, 49, 50, 51],
      Text [1043, 1072, 1079, 1077, 1083, 1100, 32, 1040, 49, 50, 51, 1042, 1057],
      Text line_klin,
      Text [49, 32, 50, 51, 52, 44, 53, 48]]"

definition example_service :: transport_service where
  \<comment> \<open>the service of the example row: driver "Ivanov I.I.", vehicle "A123VS"\<close>
  "example_service =
     \<lparr>date = \<lparr>year = 2024, month = 1, day = 12, hour = 0, minute = 0, second = 0\<rparr>,
      driver_name = [1048, 1074, 1072, 1085, 1086, 1074, 32, 1048, 46, 1048, 46],
      car_number = [1040, 49, 50, 51, 1042, 1057],
      route = [ORIGIN, Klin, Klinskii], quantity = 1, unit_name = [1096, 1090, 46],
      price = Finite False 123450 (- 2), amount = Finite False 123450 (- 2),
      stored_description = None\<rparr>"

definition example_row2 :: "cell list" where
  \<comment> \<open>13 January 2024; "Petrov P.P., tel. 456"; "Gazel V456"; "Kirzhach"; no amount\<close>
  "example_row2 =
     [Stamp \<lparr>year = 2024, month = 1, day = 13, hour = 0, minute = 0, second = 0\<rparr> [],
      Text [1055, 1077, 1090, 1088, 1086, 1074, 32, 1055, 46, 1055, 46, 44, 32, 1090, 1077, 1083,
            46, 32, 52, 53, 54],
      Text [1043, 1072, 1079, 1077, 1083, 1100, 32, 1042, 52, 53, 54],
      Text Kirzhach,
      Blank]"

definition example_service2 :: transport_service where
  "example_service2 =
     \<lparr>date = \<lparr>year = 2024, month = 1, day = 13, hour = 0, minute = 0, second = 0\<rparr>,
      driver_name = [1055, 1077, 1090, 1088, 1086, 1074, 32, 1055, 46, 1055, 46],
      car_number = [1042, 52, 53, 54],
      route = [ORIGIN, Kirzhach], quantity = 1, unit_name = [1096, 1090, 46],
      price = Decimal_0_00, amount = Decimal_0_00, stored_description = None\<rparr>"

definition example_frame :: dataframe where
  "example_frame = \<lparr>columns = example_columns, rows = [example_row, example_row2]\<rparr>"

definition example_env :: env where
  \<comment> \<open>a clock reading of 15 March 2024, no date text that parses, and three files: "a"
      loads as the example frame, "b" as a frame with the date column only, and no other
      file loads\<close>
  "example_env =
     \<lparr>now = \<lparr>year = 2024, month = 3, day = 15, hour = 0, minute = 0, second = 0\<rparr>,
      strptime = (\<lambda>s f. None),
      read_excel = (\<lambda>p. if p = [97] then Some example_frame
                         else if p = [98] then Some \<lparr>columns = [Name col_date], rows = []\<rparr>
                         else None),
      read_csv = (\<lambda>p c. None)\<rparr>"

section \<open>Properties of the address parser and the route\<close>

lemmas text_eval =
  strip_def strip_chars_def lower_def lower_cp_def upper_cp_def is_space_def is_word_def

lemmas address_eval =
  re_search_def pattern0_def pattern1_def pattern2_def pattern3_def cyr_name_def abbr_rx_def
  CITY_CORRECTIONS_def patterns_def apply_correction_def apply_corrections_def
  apply_pattern_def apply_patterns_def parse_line_def collect_locations_def
  parse_addresses_def origin_lower_def Sergiev_Posad_def Odintsovo_def Kirzhach_def

lemmas example_eval =
  fresh_def line_klin_def Klin_def Klinskii_def sergiev_def block_tie_def block_posad_def
  example_env_def example_columns_def example_row_def example_service_def
  example_row2_def example_service2_def example_frame_def

lemmas amount_eval =
  parse_amount_def amount_text_def Decimal_of_str_def take_sign_def parse_number_def
  parse_special_def parse_exponent_def is_digit_def digits_value_def Decimal_0_00_def warn_def

lemmas service_eval =
  description_def strftime_dmY_def pad2_def pad4_def set_description_def marshrut_def

lemmas file_eval =
  process_file_def process_file_with_def returning_def load_data_def validate_structure_def
  check_column_def required_columns_def process_data_def on_exception_def
  List.map_filter_def

lemmas row_eval =
  process_row_def parse_date_def extract_driver_name_def extract_car_number_def
  extract_route_def row_get_def col_date_def col_driver_def col_car_def col_address_def
  col_amount_def car_pattern_def NOT_SPECIFIED_def

text \<open>
  Claim C10. For every address cell the route extractor returns a list of at least two
  names: it never returns the origin alone, and when no destination is resolved (the cell
  is blank or falsy, or the parser finds no city) the route is exactly the origin followed
  by the unknown point.
\<close>

theorem extract_route_at_least_two:
  "2 \<le> length (fst (extract_route c i s)) \<and> fst (extract_route c i s) \<noteq> [ORIGIN] \<and>
   (isna c \<or> \<not> truthy c \<or> parse_addresses (cell_str c) = [] \<longrightarrow>
      fst (extract_route c i s) = [ORIGIN, UNKNOWN_POINT])"
  by (auto simp: extract_route_def Let_def neq_Nil_conv)

theorem extract_route_at_least_two_witness:
  "parse_addresses (cell_str (Text [97, 98, 99])) = [] \<and>
   fst (extract_route (Text [97, 98, 99]) 0 \<lparr>errors = [], warnings = []\<rparr>) =
     [ORIGIN, UNKNOWN_POINT]"
  using extract_route_at_least_two [of "Text [97, 98, 99]" 0 "\<lparr>errors = [], warnings = []\<rparr>"]
  by (simp add: text_eval address_eval)

subsection \<open>Priorities only rise\<close>

lemma apply_pattern_keeps:
  "map_of l c = Some p \<Longrightarrow> \<exists>p'. map_of (apply_pattern a ip l) c = Some p' \<and> p \<le> p'"
  unfolding apply_pattern_def by (auto simp: Let_def update_conv' split: option.splits)

lemma fold_apply_pattern_keeps:
  "map_of l c = Some p \<Longrightarrow> \<exists>p'. map_of (fold (apply_pattern a) ips l) c = Some p' \<and> p \<le> p'"
proof (induction ips arbitrary: l p)
  case Nil
  then show ?case by simp
next
  case (Cons ip ips)
  from apply_pattern_keeps [OF Cons.prems, of a ip]
  obtain q where q: "map_of (apply_pattern a ip l) c = Some q" "p \<le> q" by blast
  from Cons.IH [OF q(1)] obtain p' where "map_of (fold (apply_pattern a) ips (apply_pattern a ip l)) c = Some p'" "q \<le> p'"
    by blast
  with q(2) show ?case by auto
qed

lemma apply_correction_keeps:
  "map_of l c = Some p \<Longrightarrow> 3 \<le> p \<Longrightarrow> \<exists>p'. map_of (apply_correction a kv l) c = Some p' \<and> 3 \<le> p'"
  by (cases kv) (auto simp: apply_correction_def update_conv')

lemma fold_apply_correction_keeps:
  "map_of l c = Some p \<Longrightarrow> 3 \<le> p \<Longrightarrow> \<exists>p'. map_of (fold (apply_correction a) kvs l) c = Some p' \<and> 3 \<le> p'"
proof (induction kvs arbitrary: l p)
  case Nil
  then show ?case by simp
next
  case (Cons kv kvs)
  from apply_correction_keeps [OF Cons.prems, of a kv]
  obtain q where q: "map_of (apply_correction a kv l) c = Some q" "3 \<le> q" by blast
  from Cons.IH [OF q] show ?case by simp
qed

lemma fold_apply_correction_records:
  "(abbr, full) \<in> set kvs \<Longrightarrow> re_search False (abbr_rx abbr) (lower a) \<noteq> None \<Longrightarrow>
   \<exists>p'. map_of (fold (apply_correction a) kvs l) full = Some p' \<and> 3 \<le> p'"
proof (induction kvs arbitrary: l)
  case Nil
  then show ?case by simp
next
  case (Cons kv kvs)
  show ?case
  proof (cases "kv = (abbr, full)")
    case True
    with Cons.prems(2) have "map_of (apply_correction a kv l) full = Some 3"
      by (simp add: apply_correction_def update_conv')
    from fold_apply_correction_keeps [OF this, of a kvs] show ?thesis by simp
  next
    case False
    with Cons.prems have "(abbr, full) \<in> set kvs" by simp
    from Cons.IH [OF this Cons.prems(2)] show ?thesis by simp
  qed
qed

lemma parse_line_keeps:
  assumes "map_of l c = Some p" "3 \<le> p"
  shows "\<exists>p'. map_of (parse_line a l) c = Some p' \<and> 3 \<le> p'"
proof (cases "strip a = []")
  case True
  with assms show ?thesis by (simp add: parse_line_def)
next
  case False
  from fold_apply_correction_keeps [OF assms, of "strip a" CITY_CORRECTIONS]
  obtain q where q: "map_of (apply_corrections (strip a) l) c = Some q" "3 \<le> q"
    by (auto simp: apply_corrections_def)
  from fold_apply_pattern_keeps [OF q(1), of "strip a" "enumerate 0 patterns"]
  obtain p' where "map_of (fold (apply_pattern (strip a)) (enumerate 0 patterns)
      (apply_corrections (strip a) l)) c = Some p'" "q \<le> p'" by blast
  with q(2) False show ?thesis by (simp add: parse_line_def apply_patterns_def Let_def)
qed

lemma fold_parse_line_keeps:
  "map_of l c = Some p \<Longrightarrow> 3 \<le> p \<Longrightarrow> \<exists>p'. map_of (fold parse_line ls l) c = Some p' \<and> 3 \<le> p'"
proof (induction ls arbitrary: l p)
  case Nil
  then show ?case by simp
next
  case (Cons a ls)
  from parse_line_keeps [OF Cons.prems, of a]
  obtain q where q: "map_of (parse_line a l) c = Some q" "3 \<le> q" by blast
  from Cons.IH [OF q] show ?case by simp
qed

lemma parse_line_records:
  assumes "strip a \<noteq> []" "(abbr, full) \<in> set CITY_CORRECTIONS"
    and "re_search False (abbr_rx abbr) (lower (strip a)) \<noteq> None"
  shows "\<exists>p'. map_of (parse_line a l) full = Some p' \<and> 3 \<le> p'"
proof -
  from fold_apply_correction_records [OF assms(2,3), of l]
  obtain q where q: "map_of (apply_corrections (strip a) l) full = Some q" "3 \<le> q"
    by (auto simp: apply_corrections_def)
  from fold_apply_pattern_keeps [OF q(1), of "strip a" "enumerate 0 patterns"]
  obtain p' where "map_of (fold (apply_pattern (strip a)) (enumerate 0 patterns)
      (apply_corrections (strip a) l)) full = Some p'" "q \<le> p'" by blast
  with q(2) assms(1) show ?thesis by (simp add: parse_line_def apply_patterns_def Let_def)
qed

lemma fold_parse_line_records:
  assumes "a \<in> set ls" "strip a \<noteq> []" "(abbr, full) \<in> set CITY_CORRECTIONS"
    and "re_search False (abbr_rx abbr) (lower (strip a)) \<noteq> None"
  shows "\<exists>p'. map_of (fold parse_line ls l) full = Some p' \<and> 3 \<le> p'"
  using assms(1)
proof (induction ls arbitrary: l)
  case Nil
  then show ?case by simp
next
  case (Cons b ls)
  show ?case
  proof (cases "a \<in> set ls")
    case True
    from Cons.IH [OF this] show ?thesis by simp
  next
    case False
    with Cons.prems have "b = a" by simp
    from parse_line_records [OF assms(2,3,4), of l]
    obtain q where q: "map_of (parse_line a l) full = Some q" "3 \<le> q" by blast
    from fold_parse_line_keeps [OF q, of ls] \<open>b = a\<close> show ?thesis by simp
  qed
qed

lemma hd_sort_key_least:
  assumes "x \<in> set xs"
  shows "hd (sort_key f xs) \<in> set xs \<and> f (hd (sort_key f xs)) \<le> f x"
proof (cases "sort_key f xs")
  case Nil
  then have "set (sort_key f xs) = {}" by simp
  with assms show ?thesis by simp
next
  case (Cons h t)
  have "sorted (map f (sort_key f xs))" by (rule sorted_sort_key)
  with Cons have le: "\<forall>y\<in>set t. f h \<le> f y" by simp
  have s: "set (h # t) = set xs" using Cons set_sort [of f xs] by simp
  then have "h \<in> set xs" by auto
  moreover from assms s have "x = h \<or> x \<in> set t" by auto
  with le have "f h \<le> f x" by auto
  ultimately show ?thesis using Cons by simp
qed

text \<open>
  Claim C4, as amended. When some line of the block matches a key of the dictionary that
  maps to Sergiev Posad, and no other city of the block is recorded at rank 3, Sergiev
  Posad is the first name the parser returns and the first destination of the route.
\<close>

theorem dictionary_city_ranks_first:
  assumes "line \<in> set (split_on 10 (strip_chars [34] text))"
    and "strip line \<noteq> []"
    and "(abbr, Sergiev_Posad) \<in> set CITY_CORRECTIONS"
    and "re_search False (abbr_rx abbr) (lower (strip line)) \<noteq> None"
    and "\<forall>(city, priority) \<in> set (collect_locations text). city \<noteq> Sergiev_Posad \<longrightarrow> priority < 3"
  shows "hd (parse_addresses text) = Sergiev_Posad \<and>
         fst (extract_route (Text text) i s) ! 1 = Sergiev_Posad"
proof -
  let ?locs = "collect_locations text"
  let ?f = "\<lambda>(loc, priority). - priority :: int"
  from fold_parse_line_records [OF assms(1-4), of "[]"]
  obtain p where p: "map_of ?locs Sergiev_Posad = Some p" "3 \<le> p"
    by (auto simp: collect_locations_def)
  then have mem: "(Sergiev_Posad, p) \<in> set ?locs" by (simp add: map_of_SomeD)
  from hd_sort_key_least [OF mem, of ?f]
  have h: "hd (sort_key ?f ?locs) \<in> set ?locs" "?f (hd (sort_key ?f ?locs)) \<le> - p"
    by auto
  obtain c q where cq: "hd (sort_key ?f ?locs) = (c, q)" by (cases "hd (sort_key ?f ?locs)")
  with h p(2) have "(c, q) \<in> set ?locs" "3 \<le> q" by auto
  with assms(5) have "c = Sergiev_Posad" by fastforce
  have ne: "sort_key ?f ?locs \<noteq> []"
    using mem set_sort [of ?f ?locs] by (metis empty_iff empty_set)
  then have hd: "hd (parse_addresses text) = Sergiev_Posad"
    using cq \<open>c = Sergiev_Posad\<close> by (simp add: parse_addresses_def hd_map)
  have pne: "parse_addresses text \<noteq> []" using ne by (simp add: parse_addresses_def)
  have "text \<noteq> []"
  proof
    assume "text = []"
    with assms(1) have "line = []" by (simp add: strip_chars_def)
    with assms(2) show False by (simp add: strip_def)
  qed
  with pne hd have "fst (extract_route (Text text) i s) ! 1 = Sergiev_Posad"
    by (cases "parse_addresses text") (simp_all add: extract_route_def Let_def)
  with hd show ?thesis by simp
qed


theorem dictionary_city_ranks_first_witness:
  "collect_locations block_posad = [(Sergiev_Posad, 3), (Klinskii, 1)] \<and>
   hd (parse_addresses block_posad) = Sergiev_Posad \<and>
   fst (extract_route (Text block_posad) 0 fresh) ! 1 = Sergiev_Posad"
  using dictionary_city_ranks_first [of sergiev block_posad sergiev 0 fresh]
  by (simp add: text_eval address_eval example_eval)

text \<open>
  Claim C4 as stated fails when another city reaches rank 3 first. In the block of the two
  lines "g. Klin" and "sergiev raion", the second line matches the key "sergiev" of the
  dictionary and, through the pattern of priority 1, records the different city "sergiev";
  the first line records Klin at rank 3 before Sergiev Posad, and the sort keeps the
  insertion order among equal ranks, so Sergiev Posad is the second destination.
\<close>

theorem dictionary_city_second_counterexample:
  "re_search False (abbr_rx sergiev) (lower [1089, 1077, 1088, 1075, 1080, 1077, 1074, 32, 1088, 1072, 1081, 1086, 1085]) \<noteq> None \<and>
   re_search True pattern2 [1089, 1077, 1088, 1075, 1080, 1077, 1074, 32, 1088, 1072, 1081, 1086, 1085] = Some sergiev \<and>
   collect_locations block_tie = [(Klin, 3), (Sergiev_Posad, 3), (sergiev, 1)] \<and>
   fst (extract_route (Text block_tie) 0 fresh) = [ORIGIN, Klin, Sergiev_Posad, sergiev]"
  by (simp add: text_eval address_eval example_eval extract_route_def)

subsection \<open>Every pattern is applied to every line\<close>






text \<open>
  Claim C9. Resolving the same address twice gives the same ordered list of names. The
  address parser reads its argument and the class constants only; the route extractor
  around it threads the processor's state, and the route it returns is the same on a second
  call made in the state the first call left, and the same for any two states and row
  numbers.
\<close>

theorem route_same_on_every_call:
  "fst (extract_route c j (snd (extract_route c i s))) = fst (extract_route c i s) \<and>
   fst (extract_route c i s) = fst (extract_route c j s')"
  by (simp add: extract_route_def Let_def)

theorem route_same_on_every_call_witness:
  "fst (extract_route (Text line_klin) 0 fresh) = [ORIGIN, Klin, Klinskii] \<and>
   fst (extract_route (Text line_klin) 1 (snd (extract_route (Text line_klin) 0 fresh))) = [ORIGIN, Klin, Klinskii]"
  using route_same_on_every_call [of "Text line_klin" 1 0 fresh fresh]
  by (simp add: text_eval address_eval example_eval extract_route_def)

section \<open>Properties of the amount parser\<close>

text \<open>
  Claim C5. For a cell that is not blank, when the text of the cell, its commas turned into
  periods and its spaces removed, is a decimal numeral, the parser returns exactly that
  decimal and records nothing; "1 234,50" gives 1234.50, the coefficient 123450 with the
  exponent -2. For a blank cell, and for a text that \<open>Decimal\<close> rejects, it returns 0.00
  and appends exactly one warning. The parser is total: the exception of \<open>Decimal\<close> is
  handled inside it, and it returns a value in every case.
\<close>

theorem parse_amount_exact:
  "(\<not> isna c \<and> Decimal_of_str (amount_text (cell_str c)) = Inr d \<longrightarrow>
      parse_amount c i s = (d, s)) \<and>
   (isna c \<or> Decimal_of_str (amount_text (cell_str c)) = Inl e \<longrightarrow>
      fst (parse_amount c i s) = Decimal_0_00 \<and>
      (\<exists>w. warnings (snd (parse_amount c i s)) = warnings s @ [w]) \<and>
      errors (snd (parse_amount c i s)) = errors s) \<and>
   parse_amount (Text [49, 32, 50, 51, 52, 44, 53, 48]) i s = (Finite False 123450 (- 2), s)"
proof -
  have a: "\<not> isna c \<and> Decimal_of_str (amount_text (cell_str c)) = Inr d \<longrightarrow>
      parse_amount c i s = (d, s)"
    by (simp add: parse_amount_def)
  have b: "isna c \<or> Decimal_of_str (amount_text (cell_str c)) = Inl e \<longrightarrow>
      fst (parse_amount c i s) = Decimal_0_00 \<and>
      (\<exists>w. warnings (snd (parse_amount c i s)) = warnings s @ [w]) \<and>
      errors (snd (parse_amount c i s)) = errors s"
    by (auto simp: parse_amount_def warn_def)
  have c: "parse_amount (Text [49, 32, 50, 51, 52, 44, 53, 48]) i s = (Finite False 123450 (- 2), s)"
    by (simp add: text_eval amount_eval)
  from a b c show ?thesis by blast
qed

theorem parse_amount_exact_witness:
  "Decimal_of_str (amount_text (cell_str (Text [49, 46, 53]))) = Inr (Finite False 15 (- 1)) \<and>
   parse_amount (Text [49, 46, 53]) 0 fresh = (Finite False 15 (- 1), fresh) \<and>
   Decimal_of_str (amount_text (cell_str (Text [97, 98, 99]))) = Inl InvalidOperation \<and>
   parse_amount (Text [97, 98, 99]) 0 fresh =
     (Decimal_0_00, \<lparr>errors = [], warnings = [BadAmount 1 InvalidOperation]\<rparr>) \<and>
   parse_amount Blank 4 fresh = (Decimal_0_00, \<lparr>errors = [], warnings = [NoAmount 5]\<rparr>)"
  using parse_amount_exact [of "Text [49, 46, 53]" "Finite False 15 (- 1)" 0 fresh InvalidOperation]
    parse_amount_exact [of "Text [97, 98, 99]" "Finite False 15 (- 1)" 0 fresh InvalidOperation]
  by (simp add: text_eval amount_eval fresh_def)

lemma parse_amount_value: "fst (parse_amount c i s) = fst (parse_amount c j s')"
  by (simp add: parse_amount_def split: sum.splits)

lemma set_strip: "set (strip t) \<subseteq> set t"
proof -
  have "set (strip t) = set (dropWhile is_space (rev (dropWhile is_space t)))"
    by (simp add: strip_def)
  also have "\<dots> \<subseteq> set (rev (dropWhile is_space t))" by (auto dest: set_dropWhileD)
  also have "\<dots> \<subseteq> set t" by (auto dest: set_dropWhileD)
  finally show ?thesis .
qed

lemma unsigned_text_finite:
  assumes "\<forall>ch\<in>set t. is_digit ch \<or> ch = 46" and "Decimal_of_str t = Inr d"
  shows "\<exists>c e. d = Finite False c e"
proof -
  define u where "u = filter (\<lambda>c. c \<noteq> 95) (strip t)"
  have sub: "\<forall>ch\<in>set u. is_digit ch \<or> ch = 46"
    using assms(1) set_strip [of t] by (auto simp: u_def)
  have sign: "take_sign u = (False, u)"
    using sub by (cases u) (auto simp: take_sign_def is_digit_def)
  show ?thesis
  proof (cases u)
    case Nil
    with assms(2) sign show ?thesis
      by (simp add: Decimal_of_str_def u_def [symmetric] parse_special_def lower_def)
  next
    case (Cons a as)
    with sub have "is_digit a \<or> a = 46" by simp
    with assms(2) sign Cons have "parse_number False u = Some d"
      by (auto simp: Decimal_of_str_def u_def [symmetric] split: option.splits)
    then show ?thesis
      by (auto simp: parse_number_def Let_def split: if_splits option.splits)
  qed
qed

lemma amount_text_chars:
  assumes "\<forall>ch\<in>set t. is_digit ch \<or> ch = 32 \<or> ch = 44 \<or> ch = 46"
  shows "\<forall>ch\<in>set (amount_text t). is_digit ch \<or> ch = 46"
  using assms by (auto simp: amount_text_def)

lemma parse_amount_non_negative:
  assumes "\<forall>ch\<in>set (cell_str c). is_digit ch \<or> ch = 32 \<or> ch = 44 \<or> ch = 46"
  shows "non_negative (fst (parse_amount c i s))"
proof (cases "isna c")
  case True
  then show ?thesis by (simp add: parse_amount_def Decimal_0_00_def)
next
  case False
  show ?thesis
  proof (cases "Decimal_of_str (amount_text (cell_str c))")
    case (Inl e)
    with False show ?thesis by (simp add: parse_amount_def Decimal_0_00_def)
  next
    case (Inr d)
    from unsigned_text_finite [OF amount_text_chars [OF assms] Inr]
    obtain k e where "d = Finite False k e" by blast
    with False Inr show ?thesis by (simp add: parse_amount_def)
  qed
qed

lemma process_row_fields:
  assumes "process_row e cols row i s = (Returns (Some svc), s')"
  shows "\<exists>sa sb. route svc = fst (extract_route (row_get cols row col_address) i sa) \<and>
         amount svc = fst (parse_amount (row_get cols row col_amount) i sb) \<and>
         price svc = amount svc"
  using assms by (auto simp: process_row_def Let_def split: prod.splits) (metis fst_conv)+

lemma dropWhile_none: "\<forall>c\<in>set u. \<not> P c \<Longrightarrow> dropWhile P u = u"
  by (cases u) auto

lemma strip_plain: "\<forall>c\<in>set t. \<not> is_space c \<Longrightarrow> strip t = t"
  by (simp add: strip_def dropWhile_none)

lemma digit_plain: "is_digit c \<Longrightarrow> \<not> is_space c \<and> c \<noteq> 95 \<and> c \<noteq> 43 \<and> c \<noteq> 45 \<and> c \<noteq> 46"
  by (auto simp: is_digit_def is_space_def)

lemma parse_number_plain:
  assumes "list_all is_digit ip" "list_all is_digit fp" "ip \<noteq> [] \<or> fp \<noteq> []"
  shows "parse_number sg (ip @ 46 # fp) =
           Some (Finite sg (digits_value (ip @ fp)) (- int (length fp)))"
    and "ip \<noteq> [] \<Longrightarrow> parse_number sg ip = Some (Finite sg (digits_value ip) 0)"
proof -
  have nd: "\<not> is_digit 46" by (simp add: is_digit_def)
  from assms(1) have ipd: "\<And>x. x \<in> set ip \<Longrightarrow> is_digit x" by (simp add: list_all_iff)
  from assms(2) have fpd: "\<And>x. x \<in> set fp \<Longrightarrow> is_digit x" by (simp add: list_all_iff)
  have t1: "takeWhile is_digit (ip @ 46 # fp) = ip"
    using ipd nd by (simp add: takeWhile_append2)
  have d1: "dropWhile is_digit (ip @ 46 # fp) = 46 # fp"
    using ipd nd by (simp add: dropWhile_append2)
  have t2: "takeWhile is_digit fp = fp" using fpd by (simp add: takeWhile_eq_all_conv)
  have d2: "dropWhile is_digit fp = []" using fpd by simp
  show "parse_number sg (ip @ 46 # fp) =
           Some (Finite sg (digits_value (ip @ fp)) (- int (length fp)))"
    using assms(3) by (simp add: parse_number_def Let_def t1 d1 t2 d2 parse_exponent_def)
  have t3: "takeWhile is_digit ip = ip" using ipd by (simp add: takeWhile_eq_all_conv)
  have d3: "dropWhile is_digit ip = []" using ipd by simp
  show "ip \<noteq> [] \<Longrightarrow> parse_number sg ip = Some (Finite sg (digits_value ip) 0)"
    by (simp add: parse_number_def Let_def t3 d3 parse_exponent_def)
qed

lemma Decimal_of_numeral:
  assumes "mark = [] \<or> mark = [43] \<or> mark = [45]"
    and "list_all is_digit ip" "list_all is_digit fp"
  shows "ip \<noteq> [] \<or> fp \<noteq> [] \<Longrightarrow>
           Decimal_of_str (mark @ ip @ 46 # fp) =
             Inr (Finite (mark = [45]) (digits_value (ip @ fp)) (- int (length fp)))"
    and "ip \<noteq> [] \<Longrightarrow>
           Decimal_of_str (mark @ ip) = Inr (Finite (mark = [45]) (digits_value ip) 0)"
proof -
  from assms(2) have ipd: "\<And>x. x \<in> set ip \<Longrightarrow> is_digit x" by (simp add: list_all_iff)
  from assms(3) have fpd: "\<And>x. x \<in> set fp \<Longrightarrow> is_digit x" by (simp add: list_all_iff)
  have sp: "\<not> is_space 43 \<and> \<not> is_space 45 \<and> \<not> is_space 46" by (simp add: is_space_def)
  {
    fix body :: ustring
    assume b: "\<forall>c\<in>set body. is_digit c \<or> c = 46" and ne: "body \<noteq> []"
    have b2: "\<forall>c\<in>set body. \<not> is_space c \<and> c \<noteq> 95"
      using b by (auto simp: is_digit_def is_space_def)
    have plain: "\<forall>c\<in>set (mark @ body). \<not> is_space c"
      using assms(1) b2 sp by auto
    have keep: "filter (\<lambda>c. c \<noteq> 95) (mark @ body) = mark @ body"
      using assms(1) b2 by (auto simp: filter_id_conv)
    obtain h t where ht: "body = h # t" using ne by (cases body) auto
    with b have h: "is_digit h \<or> h = 46" by simp
    then have h2: "h \<noteq> 43 \<and> h \<noteq> 45" using digit_plain by auto
    have sign: "take_sign (mark @ body) = (mark = [45], body)"
      using assms(1) ht h2 by (auto simp: take_sign_def)
    have cond: "(case body of [] \<Rightarrow> False | c # x \<Rightarrow> is_digit c \<or> c = 46)"
      using ht h by simp
    have "Decimal_of_str (mark @ body) =
        (case parse_number (mark = [45]) body of None \<Rightarrow> Inl InvalidOperation | Some d \<Rightarrow> Inr d)"
      unfolding Decimal_of_str_def Let_def strip_plain [OF plain] keep sign
      by (simp add: cond)
  }
  note core = this
  show "ip \<noteq> [] \<or> fp \<noteq> [] \<Longrightarrow>
           Decimal_of_str (mark @ ip @ 46 # fp) =
             Inr (Finite (mark = [45]) (digits_value (ip @ fp)) (- int (length fp)))"
    using core [of "ip @ 46 # fp"] ipd fpd parse_number_plain(1) [OF assms(2,3)] by auto
  show "ip \<noteq> [] \<Longrightarrow>
           Decimal_of_str (mark @ ip) = Inr (Finite (mark = [45]) (digits_value ip) 0)"
    using core [of ip] ipd parse_number_plain(2) [OF assms(2,3)] by auto
qed

text \<open>
  Claim C3, as amended. The price of a service equals its amount, and the amount is what
  the amount parser returns for the cell: 0.00 for a blank or rejected cell, else the
  decimal that the cleaned text denotes, with the sign and the fractional digits of the
  text. For a text that, cleaned, is an optional sign, digits and an optional period with
  digits, the amount is negative exactly when the sign is a minus, its coefficient is the
  digits read together and its exponent is minus the number of digits after the period.
  The amount is non-negative whenever the text holds only digits, spaces, commas and
  periods.
\<close>

theorem amount_keeps_sign:
  assumes "process_row e cols row i s = (Returns (Some svc), s')"
    and "c = row_get cols row col_amount"
  shows "price svc = amount svc \<and>
         amount svc = fst (parse_amount c i s) \<and>
         (isna c \<or> Decimal_of_str (amount_text (cell_str c)) = Inl err \<longrightarrow>
            amount svc = Decimal_0_00) \<and>
         (\<not> isna c \<and> Decimal_of_str (amount_text (cell_str c)) = Inr d \<longrightarrow> amount svc = d) \<and>
         (\<not> isna c \<and> (mark = [] \<or> mark = [43] \<or> mark = [45]) \<and>
          list_all is_digit ip \<and> list_all is_digit fp \<and>
          ((ip \<noteq> [] \<or> fp \<noteq> []) \<and> amount_text (cell_str c) = mark @ ip @ 46 # fp \<or>
           ip \<noteq> [] \<and> fp = [] \<and> amount_text (cell_str c) = mark @ ip) \<longrightarrow>
            amount svc = Finite (mark = [45]) (digits_value (ip @ fp)) (- int (length fp))) \<and>
         ((\<forall>ch\<in>set (cell_str c). is_digit ch \<or> ch = 32 \<or> ch = 44 \<or> ch = 46) \<longrightarrow>
            non_negative (amount svc) \<and> non_negative (price svc))"
proof -
  from process_row_fields [OF assms(1)] obtain sb where
    f: "amount svc = fst (parse_amount (row_get cols row col_amount) i sb)" "price svc = amount svc"
    by blast
  from f(1) have a: "amount svc = fst (parse_amount c i s)"
    using parse_amount_value assms(2) by simp
  have b: "isna c \<or> Decimal_of_str (amount_text (cell_str c)) = Inl err \<longrightarrow>
            amount svc = Decimal_0_00"
    by (auto simp: a parse_amount_def)
  have d: "\<not> isna c \<and> Decimal_of_str (amount_text (cell_str c)) = Inr d \<longrightarrow> amount svc = d"
    by (auto simp: a parse_amount_def)
  have n: "\<not> isna c \<and> (mark = [] \<or> mark = [43] \<or> mark = [45]) \<and>
          list_all is_digit ip \<and> list_all is_digit fp \<and>
          ((ip \<noteq> [] \<or> fp \<noteq> []) \<and> amount_text (cell_str c) = mark @ ip @ 46 # fp \<or>
           ip \<noteq> [] \<and> fp = [] \<and> amount_text (cell_str c) = mark @ ip) \<longrightarrow>
            amount svc = Finite (mark = [45]) (digits_value (ip @ fp)) (- int (length fp))"
  proof (intro impI, elim conjE)
    assume h: "\<not> isna c" "mark = [] \<or> mark = [43] \<or> mark = [45]"
      "list_all is_digit ip" "list_all is_digit fp"
      "(ip \<noteq> [] \<or> fp \<noteq> []) \<and> amount_text (cell_str c) = mark @ ip @ 46 # fp \<or>
       ip \<noteq> [] \<and> fp = [] \<and> amount_text (cell_str c) = mark @ ip"
    from h(5) have "Decimal_of_str (amount_text (cell_str c)) =
        Inr (Finite (mark = [45]) (digits_value (ip @ fp)) (- int (length fp)))"
      using Decimal_of_numeral [OF h(2,3,4)] by auto
    with h(1) show "amount svc = Finite (mark = [45]) (digits_value (ip @ fp)) (- int (length fp))"
      by (simp add: a parse_amount_def)
  qed
  have nn: "(\<forall>ch\<in>set (cell_str c). is_digit ch \<or> ch = 32 \<or> ch = 44 \<or> ch = 46) \<longrightarrow>
            non_negative (amount svc) \<and> non_negative (price svc)"
    using a f(2) parse_amount_non_negative [of c i s] by simp
  from f(2) a b d n nn show ?thesis by blast
qed

theorem amount_keeps_sign_witness:
  "process_row example_env [Name col_amount] [Text [45, 49, 32, 50, 51, 52, 44, 53, 48]] 0 fresh =
     (Returns (Some \<lparr>date = now example_env, driver_name = NOT_SPECIFIED, car_number = NOT_SPECIFIED,
        route = [ORIGIN, UNKNOWN_POINT], quantity = 1, unit_name = [1096, 1090, 46],
        price = Finite True 123450 (- 2), amount = Finite True 123450 (- 2), stored_description = None\<rparr>),
      \<lparr>errors = [], warnings = [EmptyDate 1, NoDriver 1, NoCar 1, NoAddress 1]\<rparr>) \<and>
   amount_text [45, 49, 32, 50, 51, 52, 44, 53, 48] = [45] @ [49, 50, 51, 52] @ 46 # [53, 48] \<and>
   digits_value ([49, 50, 51, 52] @ [53, 48]) = 123450 \<and>
   fst (parse_amount (Text [49, 32, 50, 51, 52, 44, 53, 48]) 0 fresh) = Finite False 123450 (- 2) \<and>
   non_negative (Finite False 123450 (- 2))"
  using amount_keeps_sign [where e = example_env and cols = "[Name col_amount]"
      and row = "[Text [45, 49, 32, 50, 51, 52, 44, 53, 48]]" and i = 0 and s = fresh
      and svc = "\<lparr>date = now example_env, driver_name = NOT_SPECIFIED, car_number = NOT_SPECIFIED,
        route = [ORIGIN, UNKNOWN_POINT], quantity = 1, unit_name = [1096, 1090, 46],
        price = Finite True 123450 (- 2), amount = Finite True 123450 (- 2), stored_description = None\<rparr>"
      and s' = "\<lparr>errors = [], warnings = [EmptyDate 1, NoDriver 1, NoCar 1, NoAddress 1]\<rparr>"
      and c = "Text [45, 49, 32, 50, 51, 52, 44, 53, 48]" and mark = "[45]"
      and ip = "[49, 50, 51, 52]" and fp = "[53, 48]" and d = "Finite True 123450 (- 2)"
      and err = InvalidOperation]
    amount_keeps_sign [where e = example_env and cols = "[Name col_amount]"
      and row = "[Text [49, 32, 50, 51, 52, 44, 53, 48]]" and i = 0 and s = fresh
      and svc = "\<lparr>date = now example_env, driver_name = NOT_SPECIFIED, car_number = NOT_SPECIFIED,
        route = [ORIGIN, UNKNOWN_POINT], quantity = 1, unit_name = [1096, 1090, 46],
        price = Finite False 123450 (- 2), amount = Finite False 123450 (- 2), stored_description = None\<rparr>"
      and s' = "\<lparr>errors = [], warnings = [EmptyDate 1, NoDriver 1, NoCar 1, NoAddress 1]\<rparr>"
      and c = "Text [49, 32, 50, 51, 52, 44, 53, 48]" and mark = "[]"
      and ip = "[49, 50, 51, 52]" and fp = "[53, 48]" and d = "Finite False 123450 (- 2)"
      and err = InvalidOperation]
  by (simp add: text_eval row_eval amount_eval fresh_def)

text \<open>
  Claim C3 as stated fails on the cell "-5": \<open>Decimal\<close> accepts a sign, the parser does
  not look at it, and the service takes the negative decimal -5, which also has no
  fractional digits, as its amount and its price.
\<close>

theorem negative_amount_counterexample:
  "process_row example_env [Name col_amount] [Text [45, 53]] 0 fresh =
     (Returns (Some \<lparr>date = now example_env, driver_name = NOT_SPECIFIED, car_number = NOT_SPECIFIED,
        route = [ORIGIN, UNKNOWN_POINT], quantity = 1, unit_name = [1096, 1090, 46],
        price = Finite True 5 0, amount = Finite True 5 0, stored_description = None\<rparr>),
      \<lparr>errors = [], warnings = [EmptyDate 1, NoDriver 1, NoCar 1, NoAddress 1]\<rparr>) \<and>
   \<not> non_negative (Finite True 5 0)"
  by (simp add: text_eval row_eval amount_eval fresh_def)

section \<open>Properties of the processed row\<close>

lemma extract_route_shape:
  "\<exists>xs. fst (extract_route c i s) = ORIGIN # xs \<and> 1 \<le> length xs \<and> length xs \<le> 3"
  by (auto simp: extract_route_def Let_def neq_Nil_conv)

lemma process_row_route:
  assumes "process_row e cols row i s = (Returns (Some svc), s')"
  shows "route svc \<noteq> [] \<and> route svc ! 0 = ORIGIN \<and> length (route svc) \<le> 4"
proof -
  from process_row_fields [OF assms] obtain sa where
    "route svc = fst (extract_route (row_get cols row col_address) i sa)" by blast
  with extract_route_shape [of "row_get cols row col_address" i sa]
  show ?thesis by auto
qed

lemma process_rows_all:
  assumes "\<And>row i s svc s'. f row i s = (Returns (Some svc), s') \<Longrightarrow> P svc"
  shows "\<forall>svc\<in>set acc. P svc \<Longrightarrow> \<forall>svc\<in>set (fst (process_rows f rs acc s)). P svc"
proof (induction rs arbitrary: acc s)
  case Nil
  then show ?case by simp
next
  case (Cons ir rs)
  obtain i r where ir: "ir = (i, r)" by (cases ir)
  obtain out s1 where f: "f r i s = (out, s1)" by (cases "f r i s")
  show ?case
  proof (cases out)
    case (Raises ex)
    with Cons ir f show ?thesis by simp
  next
    case (Returns so)
    show ?thesis
    proof (cases so)
      case None
      with Cons ir f Returns show ?thesis by simp
    next
      case (Some svc)
      with f Returns assms have "P svc" by blast
      with Cons.prems have "\<forall>x\<in>set (acc @ [svc]). P x" by simp
      from Cons.IH [OF this] ir f Returns Some show ?thesis by simp
    qed
  qed
qed

lemma process_file_data:
  assumes "data (fst (process_file e f s)) = Some svcs"
  shows "\<exists>df s1. svcs = fst (process_data e df s1)"
  using assms
  by (auto simp: process_file_def process_file_with_def returning_def on_exception_def Let_def
      split: prod.splits option.splits if_splits) (metis fst_conv)

text \<open>
  Claim C2. The route of the service of every processed row starts with the origin city
  and holds at most three destinations after it, so at most four names; this holds of the
  service that \<open>_process_row\<close> returns and of every service in the data of a result of
  \<open>process_file\<close>.
\<close>

theorem route_starts_at_origin:
  "(process_row e cols row i s = (Returns (Some svc), s') \<longrightarrow>
      route svc \<noteq> [] \<and> route svc ! 0 = ORIGIN \<and> length (route svc) \<le> 4) \<and>
   (data (fst (process_file e f s)) = Some svcs \<longrightarrow>
      (\<forall>svc\<in>set svcs. route svc \<noteq> [] \<and> route svc ! 0 = ORIGIN \<and> length (route svc) \<le> 4))"
proof -
  let ?P = "\<lambda>svc. route svc \<noteq> [] \<and> route svc ! 0 = ORIGIN \<and> length (route svc) \<le> 4"
  have rows: "\<forall>svc\<in>set (fst (process_data e df s1)). ?P svc" for df s1
    unfolding process_data_def
    by (rule process_rows_all [where P = ?P]) (auto dest: process_row_route)
  have "data (fst (process_file e f s)) = Some svcs \<longrightarrow> (\<forall>svc\<in>set svcs. ?P svc)"
    using rows by (auto dest!: process_file_data)
  then show ?thesis using process_row_route [of e cols row i s svc s'] by blast
qed

section \<open>Properties of the description\<close>

lemma set_description_fields:
  "date (set_description v svc) = date svc \<and> driver_name (set_description v svc) = driver_name svc \<and>
   car_number (set_description v svc) = car_number svc \<and>
   stored_description (set_description v svc) = Some v"
  by (simp add: set_description_def Let_def split: list.splits)

lemma set_description_route:
  "\<not> contains marshrut v \<Longrightarrow> route (set_description v svc) = route svc"
  by (simp add: set_description_def Let_def)

text \<open>
  Claim C6 does not hold of the code. The property \<open>description\<close> is computed from the
  date, the driver, the vehicle and the route on every read, and never reads the attribute
  in which the table model stores an edited description. After an edit, the description
  read back is the computed one: unchanged when the edited text does not hold the word
  "marshrut", and never the edited text as such.
\<close>

theorem description_ignores_stored:
  "description (svc\<lparr>stored_description := x\<rparr>) = description svc \<and>
   (\<not> contains marshrut v \<longrightarrow> description (set_description v svc) = description svc)"
  by (simp add: description_def set_description_fields set_description_route)

theorem description_ignores_stored_witness:
  "\<not> contains marshrut [88] \<and>
   stored_description (set_description [88] example_service) = Some [88] \<and>
   description (set_description [88] example_service) =
     [1058, 1088, 1072, 1085, 1089, 1087, 1086, 1088, 1090, 1085, 1099, 1077, 32,
      1091, 1089, 1083, 1091, 1075, 1080, 32, 49, 50, 46, 48, 49, 46, 50, 48, 50, 52,
      32, 1074, 1086, 1076, 1080, 1090, 46, 32] @ driver_name example_service @
     [44, 32, 1072, 47, 1084, 32, 1043, 1072, 1079, 1077, 1083, 1100, 32] @ car_number example_service @
     [44, 32, 1084, 1072, 1088, 1096, 1088, 1091, 1090, 32] @
     ORIGIN @ [32, 45, 32] @ Klin @ [32, 45, 32] @ Klinskii"
  using description_ignores_stored [where svc = example_service and v = "[88]" and x = None]
  by (simp add: service_eval example_eval)

section \<open>Properties of a run over a file\<close>

lemma reset_fresh: "(s :: processor)\<lparr>errors := [], warnings := []\<rparr> = \<lparr>errors = [], warnings = []\<rparr>"
  by (cases s) simp

lemma process_file_success_iff:
  "success (fst (process_file_with L V P f s)) \<longleftrightarrow>
   (\<exists>df s1 df' s2 svcs s3. L f fresh = (Returns (Some df), s1) \<and> V df s1 = (Returns (True, df'), s2) \<and>
       P df' s2 = (Returns svcs, s3))"
  by (auto simp: process_file_with_def reset_fresh fresh_def on_exception_def
      split: prod.splits outcome.splits option.splits if_splits)

lemma failure_no_data:
  "\<not> success (fst (process_file_with L V P f s)) \<longrightarrow> data (fst (process_file_with L V P f s)) = None"
  by (auto simp: process_file_with_def Let_def on_exception_def split: prod.splits outcome.splits option.splits if_splits)

lemma process_file_unreadable:
  assumes "read_excel e f = None" "\<forall>enc. read_csv e f enc = None"
  shows "fst (process_file e f s) = \<lparr>success = False, message = CouldNotLoad, data = None,
           result_errors = [LoadFailed], result_warnings = []\<rparr>"
  using assms by (simp add: file_eval reset_fresh)

lemma load_data_fresh:
  "load_data e f fresh = (Some df, s1) \<Longrightarrow> s1 = fresh"
  by (auto simp: load_data_def split: option.splits list.splits)

lemma process_file_missing_columns:
  assumes "load_data e f fresh = (Some df, s1)"
    and "snd (fold check_column required_columns (columns df, [])) \<noteq> []"
  shows "fst (process_file e f s) = \<lparr>success = False, message = BadStructure, data = None,
           result_errors = [MissingColumns (snd (fold check_column required_columns (columns df, [])))],
           result_warnings = []\<rparr>"
proof -
  from load_data_fresh [OF assms(1)] assms(1) have l: "load_data e f \<lparr>errors = [], warnings = []\<rparr> = (Some df, fresh)"
    by (simp add: fresh_def)
  show ?thesis using assms(2)
    by (auto simp: process_file_def process_file_with_def returning_def reset_fresh l
        validate_structure_def fresh_def Let_def split: prod.splits)
qed

text \<open>
  Claim C7. \<open>process_file\<close> returns a result in every case; an exception of any of its
  three steps is a value that its handler turns into a failed result. The result is a
  success exactly when the file loads, the structure is valid and the rows are processed,
  each step returning; every other result has \<open>success = False\<close> and no data. A file
  that no reader can read gives the failed result with the load error, and a file whose
  required columns are missing after the search by substring gives the failed result that
  lists them.
\<close>

theorem process_file_never_raises:
  "(success (fst (process_file_with L V P f s)) \<longleftrightarrow>
      (\<exists>df s1 df' s2 svcs s3. L f fresh = (Returns (Some df), s1) \<and>
          V df s1 = (Returns (True, df'), s2) \<and> P df' s2 = (Returns svcs, s3))) \<and>
   (\<not> success (fst (process_file_with L V P f s)) \<longrightarrow>
      data (fst (process_file_with L V P f s)) = None) \<and>
   (read_excel e f = None \<and> (\<forall>enc. read_csv e f enc = None) \<longrightarrow>
      fst (process_file e f s) =
        \<lparr>success = False, message = CouldNotLoad, data = None,
         result_errors = [LoadFailed], result_warnings = []\<rparr>) \<and>
   (load_data e f fresh = (Some df0, s0) \<and>
    snd (fold check_column required_columns (columns df0, [])) \<noteq> [] \<longrightarrow>
      fst (process_file e f s) =
        \<lparr>success = False, message = BadStructure, data = None,
         result_errors = [MissingColumns (snd (fold check_column required_columns (columns df0, [])))],
         result_warnings = []\<rparr>)"
  using process_file_success_iff [of L V P f s] failure_no_data [of L V P f s]
    process_file_unreadable [of e f s] process_file_missing_columns [of e f df0 s0 s]
  by blast

theorem process_file_never_raises_witness:
  "fst (process_file example_env [99] fresh) =
     \<lparr>success = False, message = CouldNotLoad, data = None,
      result_errors = [LoadFailed], result_warnings = []\<rparr> \<and>
   fst (process_file example_env [98] fresh) =
     \<lparr>success = False, message = BadStructure, data = None,
      result_errors = [MissingColumns [col_driver, col_car, col_address, col_amount]],
      result_warnings = []\<rparr>"
  using process_file_never_raises [of "returning (load_data example_env)" "returning validate_structure"
      "returning (process_data example_env)" "[99]" fresh example_env "\<lparr>columns = [Name col_date], rows = []\<rparr>" fresh]
    process_file_never_raises [of "returning (load_data example_env)" "returning validate_structure"
      "returning (process_data example_env)" "[98]" fresh example_env "\<lparr>columns = [Name col_date], rows = []\<rparr>" fresh]
  by (simp add: text_eval file_eval example_eval reset_fresh col_date_def col_driver_def col_car_def col_address_def col_amount_def)

lemma example_row_processed:
  "process_row example_env example_columns example_row 0 \<lparr>errors = [], warnings = []\<rparr> =
     (Returns (Some example_service), \<lparr>errors = [], warnings = []\<rparr>)"
  by (simp add: text_eval row_eval amount_eval address_eval example_eval)

lemma example_row2_processed:
  "process_row example_env example_columns example_row2 (Suc 0) \<lparr>errors = [], warnings = []\<rparr> =
     (Returns (Some example_service2), \<lparr>errors = [], warnings = [NoAmount 2]\<rparr>)"
  by (simp add: text_eval row_eval amount_eval address_eval example_eval)

lemma example_file_processed:
  "process_file example_env [97] fresh =
     (\<lparr>success = True, message = Processed 2, data = Some [example_service, example_service2],
       result_errors = [], result_warnings = [NoAmount 2]\<rparr>,
      \<lparr>errors = [], warnings = [NoAmount 2]\<rparr>)"
proof -
  have v: "validate_structure example_frame \<lparr>errors = [], warnings = []\<rparr> =
      ((True, example_frame), \<lparr>errors = [], warnings = []\<rparr>)"
    by (simp add: validate_structure_def check_column_def required_columns_def example_frame_def
        example_columns_def col_date_def col_driver_def col_car_def col_address_def col_amount_def)
  have l: "load_data example_env [97] \<lparr>errors = [], warnings = []\<rparr> =
      (Some example_frame, \<lparr>errors = [], warnings = []\<rparr>)"
    by (simp add: load_data_def example_env_def)
  have p: "process_data example_env example_frame \<lparr>errors = [], warnings = []\<rparr> =
      ([example_service, example_service2], \<lparr>errors = [], warnings = [NoAmount 2]\<rparr>)"
    by (simp add: process_data_def example_frame_def enumerate_eq_zip upt_rec
        example_row_processed example_row2_processed)
  show ?thesis
    by (simp add: process_file_def process_file_with_def returning_def fresh_def l v p)
qed

lemma example_file_rejected:
  "process_file example_env [98] fresh =
     (\<lparr>success = False, message = BadStructure, data = None,
       result_errors = [MissingColumns [col_driver, col_car, col_address, col_amount]],
       result_warnings = []\<rparr>,
      \<lparr>errors = [MissingColumns [col_driver, col_car, col_address, col_amount]], warnings = []\<rparr>)"
  by (simp add: text_eval file_eval example_eval col_date_def col_driver_def col_car_def col_address_def col_amount_def)

theorem route_starts_at_origin_witness:
  "process_row example_env example_columns example_row 0 fresh =
     (Returns (Some example_service), fresh) \<and>
   data (fst (process_file example_env [97] fresh)) = Some [example_service, example_service2] \<and>
   route example_service = [ORIGIN, Klin, Klinskii] \<and>
   route example_service2 = [ORIGIN, Kirzhach]"
  using route_starts_at_origin [where e = example_env and cols = example_columns
      and row = example_row and i = 0 and s = fresh and svc = example_service and s' = fresh
      and f = "[97]" and svcs = "[example_service, example_service2]"]
    example_row_processed example_file_processed
  by (simp add: fresh_def example_service_def example_service2_def)

lemma process_file_with_state:
  "process_file_with L V P f s = process_file_with L V P f s'"
  by (simp add: process_file_with_def reset_fresh)

text \<open>
  Claim C8. A call of \<open>process_file\<close> on an instance that has processed another file
  before returns the result that a fresh instance returns: the call starts by assigning
  new empty lists to \<open>errors\<close> and \<open>warnings\<close>, the only state of the instance. The
  lists of an earlier result are not touched, since the fields are rebound, not cleared.
\<close>

theorem process_file_runs_do_not_leak:
  "fst (process_file e f2 (snd (process_file e f1 s))) = fst (process_file e f2 fresh) \<and>
   process_file_with L V P f2 (snd (process_file_with L V P f1 s)) = process_file_with L V P f2 fresh"
proof -
  have "process_file e f2 (snd (process_file e f1 s)) = process_file e f2 fresh"
    unfolding process_file_def by (rule process_file_with_state)
  moreover have "process_file_with L V P f2 (snd (process_file_with L V P f1 s)) =
      process_file_with L V P f2 fresh"
    by (rule process_file_with_state)
  ultimately show ?thesis by simp
qed

theorem process_file_runs_do_not_leak_witness:
  "result_errors (fst (process_file example_env [98] fresh)) =
     [MissingColumns [col_driver, col_car, col_address, col_amount]] \<and>
   fst (process_file example_env [97] (snd (process_file example_env [98] fresh))) =
     \<lparr>success = True, message = Processed 2, data = Some [example_service, example_service2],
      result_errors = [], result_warnings = [NoAmount 2]\<rparr>"
  using process_file_runs_do_not_leak [of example_env "[97]" "[98]" fresh]
  by (simp add: example_file_processed example_file_rejected)

end
